theory Spec2Isabelle
  imports Complex_Main "HOL-Library.AList"
begin

section \<open>Exceptions\<close>

text \<open>
  The module raises its own \<open>DockingError\<close>; the toolkit raises
  \<open>KekulizeException\<close> (the only one the module catches by name) and others;
  a failed \<open>assert\<close> raises \<open>AssertionError\<close>; \<open>float\<close> raises
  \<open>ValueError\<close> on text that is no number.
\<close>

datatype exn =
    DockingError string
  | KekulizeException string
  | AssertionError
  | ValueError string
  | OtherException string

section \<open>Molecules and check_mol\<close>

text \<open>
  A molecule as the module sees it through \<open>GetAtoms\<close>, \<open>GetAtomicNum\<close> and
  \<open>GetMolFrags\<close>: the atomic number of each atom, by atom index, and the bonds
  as pairs of atom indices. Hydrogen has atomic number 1; the toolkit gives atomic number 0
  to a dummy atom (\<open>*\<close> in SMILES).
\<close>

record mol =
  atoms :: "nat list"
  bonds :: "(nat \<times> nat) list"

definition hydrogen :: nat where
  "hydrogen = 1"

text \<open>
  Modelled from the spec: \<open>Chem.GetMolFrags\<close> belongs to the toolkit. The glossary
  defines a fragment as a maximal connected subgraph of the bond graph, so the model starts
  from one fragment per atom and joins the fragments of the two ends of every bond.
\<close>

definition touches :: "nat \<times> nat \<Rightarrow> nat list \<Rightarrow> bool" where
  "touches b f = (List.member f (fst b) \<or> List.member f (snd b))"

definition join_frags :: "nat \<times> nat \<Rightarrow> nat list list \<Rightarrow> nat list list" where
  "join_frags b fs =
     (let hit = filter (touches b) fs;
          rest = filter (\<lambda>f. \<not> touches b f) fs
      in if hit = [] then rest else concat hit # rest)"

definition GetMolFrags :: "mol \<Rightarrow> nat list list" where
  "GetMolFrags m = fold join_frags (bonds m) (map (\<lambda>i. [i]) [0..<length (atoms m)])"

text \<open>The decimal text of a natural number, as an f-string prints \<open>len(fragments)\<close>.\<close>

function str_nat :: "nat \<Rightarrow> string" where
  "str_nat n = (if n < 10 then [char_of (48 + n)]
                else str_nat (n div 10) @ [char_of (48 + n mod 10)])"
  by pat_completeness auto
termination
  by (relation "measure id") auto

definition check_mol :: "mol \<Rightarrow> exn + unit" where
  "check_mol m =
     (let no_hs = list_all (\<lambda>atom. atom \<noteq> 0) (atoms m)
      in if \<not> no_hs
         then Inl (DockingError ''Cannot process molecule: hydrogen atoms couldn't be removed'')
         else let fragments = GetMolFrags m
              in if length fragments \<noteq> 1
                 then Inl (DockingError (''Incorrect number of molecular fragments (''
                             @ str_nat (length fragments) @ '')''))
                 else Inr ())"

section \<open>SMILES parsing and canonicalization\<close>

text \<open>
  The toolkit's log switches are global state: a function from channel name to whether the
  channel is enabled. \<open>Chem.MolFromSmiles\<close> and \<open>Chem.CanonSmiles\<close> are the
  toolkit's and are parameters; \<open>MolFromSmiles\<close> answers \<open>None\<close> for text it cannot
  parse, \<open>CanonSmiles\<close> raises.
\<close>

type_synonym rdlog = "string \<Rightarrow> bool"

definition DisableLog :: "string \<Rightarrow> rdlog \<Rightarrow> rdlog" where
  "DisableLog name lg = lg(name := False)"

definition EnableLog :: "string \<Rightarrow> rdlog \<Rightarrow> rdlog" where
  "EnableLog name lg = lg(name := True)"

definition exn_text :: "exn \<Rightarrow> string" where
  "exn_text e = (case e of DockingError t \<Rightarrow> t | KekulizeException t \<Rightarrow> t
                 | AssertionError \<Rightarrow> [] | ValueError t \<Rightarrow> t | OtherException t \<Rightarrow> t)"

definition canonicalize_smiles :: "(string \<Rightarrow> exn + string) \<Rightarrow> string \<Rightarrow> exn + string" where
  "canonicalize_smiles CanonSmiles smiles =
     (case CanonSmiles smiles of
        Inr c \<Rightarrow> Inr c
      | Inl e \<Rightarrow> Inl (DockingError (''Cannot canonicalize SMILES: '' @ exn_text e)))"

definition smiles_to_mol ::
  "(string \<Rightarrow> 'm option) \<Rightarrow> string \<Rightarrow> bool \<Rightarrow> rdlog \<Rightarrow> (exn + 'm) \<times> rdlog" where
  "smiles_to_mol MolFromSmiles smiles verbose lg =
     (let lg1 = (if \<not> verbose then DisableLog ''rdApp.error'' lg else lg)
      in case MolFromSmiles smiles of
           None \<Rightarrow> (Inl (DockingError ''Could not parse SMILES string''), lg1)
         | Some m \<Rightarrow>
             let lg2 = (if \<not> verbose then EnableLog ''rdApp.error'' lg1 else lg1)
             in (Inr m, lg2))"

section \<open>verify_docked_ligand\<close>

text \<open>
  \<open>Chem.MolToSmiles\<close> belongs to the toolkit and is a parameter; the molecule type
  is whatever the toolkit works on.
\<close>

definition verify_docked_ligand :: "('m \<Rightarrow> string) \<Rightarrow> 'm \<Rightarrow> 'm \<Rightarrow> exn + unit" where
  "verify_docked_ligand MolToSmiles ref ligand =
     (let ref_smiles = MolToSmiles ref;
          ligand_smiles = MolToSmiles ligand
      in if ligand_smiles \<noteq> ref_smiles
         then Inl (DockingError (''Cannot recover original ligand: '' @ ref_smiles
                     @ '' (original ligand) != '' @ ligand_smiles @ '' (docked ligand)''))
         else Inr ())"

section \<open>Force-field refinement\<close>

text \<open>
  The optimizers of the toolkit change the molecule they are given in place, and
  \<open>copy.copy\<close> makes a new molecule object, so molecules live in a store: an address
  is an index into the list of objects, and a copy is appended at the first free address.
  The state also records, in order, which toolkit optimizers ran on which object and what
  was logged.
\<close>

type_synonym addr = nat

datatype event =
    MMFFSanitize addr
  | MMFFOptimize addr
  | UFFOptimize addr
  | LogInfo string

record 'm state =
  heap :: "'m list"
  trace :: "event list"

text \<open>
  The toolkit functions are parameters. A probe answers a boolean. A function that works in
  place answers the new content of the object together with what the call raised or
  returned.
\<close>

record 'm toolkit =
  MMFFHasAllMoleculeParams :: "'m \<Rightarrow> bool"
  UFFHasAllMoleculeParams :: "'m \<Rightarrow> bool"
  MMFFSanitizeMolecule :: "'m \<Rightarrow> 'm \<times> exn option"
  MMFFOptimizeMolecule :: "'m \<Rightarrow> int \<Rightarrow> 'm \<times> (exn + int)"
  UFFOptimizeMolecule :: "'m \<Rightarrow> int \<Rightarrow> 'm \<times> (exn + int)"

definition copy_mol :: "addr \<Rightarrow> 'm state \<Rightarrow> addr \<times> 'm state" where
  "copy_mol a s = (length (heap s), s\<lparr>heap := heap s @ [heap s ! a]\<rparr>)"

definition in_place :: "addr \<Rightarrow> 'm \<Rightarrow> event \<Rightarrow> 'm state \<Rightarrow> 'm state" where
  "in_place a v ev s = s\<lparr>heap := (heap s)[a := v], trace := trace s @ [ev]\<rparr>"

definition run_mmff94_opt ::
  "'m toolkit \<Rightarrow> addr \<Rightarrow> int \<Rightarrow> 'm state \<Rightarrow> (exn + addr) \<times> 'm state" where
  "run_mmff94_opt tk mol max_iters s =
     (let (opt_mol, s1) = copy_mol mol s;
          (v1, raised) = MMFFSanitizeMolecule tk (heap s1 ! opt_mol);
          s2 = in_place opt_mol v1 (MMFFSanitize opt_mol) s1
      in case raised of
           Some e \<Rightarrow> (Inl e, s2)
         | None \<Rightarrow>
             (let (v2, r) = MMFFOptimizeMolecule tk (heap s2 ! opt_mol) max_iters;
                  s3 = in_place opt_mol v2 (MMFFOptimize opt_mol) s2
              in (case r of
                    Inl e \<Rightarrow> (Inl e, s3)
                  | Inr opt_result \<Rightarrow>
                      if opt_result \<noteq> 0
                      then (Inl (DockingError ''MMFF optimization of ligand failed''), s3)
                      else (Inr opt_mol, s3))))"

definition run_uff_opt ::
  "'m toolkit \<Rightarrow> addr \<Rightarrow> int \<Rightarrow> 'm state \<Rightarrow> (exn + addr) \<times> 'm state" where
  "run_uff_opt tk mol max_iters s =
     (let (opt_mol, s1) = copy_mol mol s;
          (v1, r) = UFFOptimizeMolecule tk (heap s1 ! opt_mol) max_iters;
          s2 = in_place opt_mol v1 (UFFOptimize opt_mol) s1
      in case r of
           Inl e \<Rightarrow> (Inl e, s2)
         | Inr opt_result \<Rightarrow>
             if opt_result \<noteq> 0
             then (Inl (DockingError ''UFF optimization of ligand failed''), s2)
             else (Inr opt_mol, s2))"

definition log_info :: "string \<Rightarrow> 'm state \<Rightarrow> 'm state" where
  "log_info t s = s\<lparr>trace := trace s @ [LogInfo t]\<rparr>"

definition refine_mol_with_ff ::
  "'m toolkit \<Rightarrow> addr \<Rightarrow> int \<Rightarrow> 'm state \<Rightarrow> (exn + addr) \<times> 'm state" where
  "refine_mol_with_ff tk mol max_iters s =
     (if MMFFHasAllMoleculeParams tk (heap s ! mol) then
        (case run_mmff94_opt tk mol max_iters s of
           (Inl (KekulizeException t), s1) \<Rightarrow>
             run_uff_opt tk mol max_iters
               (log_info (''Ligand optimization with MMFF94 failed: '' @ t @ '', trying UFF'') s1)
         | (r, s1) \<Rightarrow> (r, s1))
      else if UFFHasAllMoleculeParams tk (heap s ! mol) then
        run_uff_opt tk mol max_iters s
      else (Inl (DockingError ''Cannot optimize ligand: parameters not available''), s))"

text \<open>Whether the second optimizer ran between two states: the events added since.\<close>

definition new_events :: "'m state \<Rightarrow> 'm state \<Rightarrow> event list" where
  "new_events s s' = drop (length (trace s)) (trace s')"

definition is_uff :: "event \<Rightarrow> bool" where
  "is_uff ev = (case ev of UFFOptimize a \<Rightarrow> True | _ \<Rightarrow> False)"

definition uff_ran :: "'m state \<Rightarrow> 'm state \<Rightarrow> bool" where
  "uff_ran s s' = list_ex is_uff (new_events s s')"

section \<open>Example inputs\<close>

text \<open>
  Methane with its four hydrogen atoms explicit; a dummy atom bound to a carbon; two benzene
  rings with no bond between them (SMILES \<open>c1ccccc1.c1ccccc1\<close>).
\<close>

definition methane_with_hs :: mol where
  "methane_with_hs = \<lparr>atoms = [6, 1, 1, 1, 1], bonds = [(0, 1), (0, 2), (0, 3), (0, 4)]\<rparr>"

definition dummy_methyl :: mol where
  "dummy_methyl = \<lparr>atoms = [0, 6], bonds = [(0, 1)]\<rparr>"

definition two_benzenes :: mol where
  "two_benzenes =
     \<lparr>atoms = replicate 12 6,
      bonds = [(0, 1), (1, 2), (2, 3), (3, 4), (4, 5), (5, 0),
               (6, 7), (7, 8), (8, 9), (9, 10), (10, 11), (11, 6)]\<rparr>"

text \<open>
  A toolkit whose MMFF sanitization raises the kekulization exception and whose UFF
  optimizer changes the object it is given (objects are numbers here); one that has
  parameters for neither method; one whose MMFF optimizer does not converge.
\<close>

definition kek_toolkit :: "nat toolkit" where
  "kek_toolkit =
     \<lparr>MMFFHasAllMoleculeParams = (\<lambda>m. True),
      UFFHasAllMoleculeParams = (\<lambda>m. True),
      MMFFSanitizeMolecule = (\<lambda>m. (m, Some (KekulizeException ''Can't kekulize mol.''))),
      MMFFOptimizeMolecule = (\<lambda>m n. (m, Inr 0)),
      UFFOptimizeMolecule = (\<lambda>m n. (Suc m, Inr 0))\<rparr>"

definition no_params_toolkit :: "nat toolkit" where
  "no_params_toolkit =
     \<lparr>MMFFHasAllMoleculeParams = (\<lambda>m. False),
      UFFHasAllMoleculeParams = (\<lambda>m. False),
      MMFFSanitizeMolecule = (\<lambda>m. (m, None)),
      MMFFOptimizeMolecule = (\<lambda>m n. (m, Inr 0)),
      UFFOptimizeMolecule = (\<lambda>m n. (m, Inr 0))\<rparr>"


section \<open>check_mol\<close>

lemma check_mol_cases:
  "check_mol m =
     (if 0 \<in> set (atoms m)
      then Inl (DockingError ''Cannot process molecule: hydrogen atoms couldn't be removed'')
      else if length (GetMolFrags m) \<noteq> 1
      then Inl (DockingError (''Incorrect number of molecular fragments (''
                  @ str_nat (length (GetMolFrags m)) @ '')''))
      else Inr ())"
  by (auto simp: check_mol_def Let_def list_all_iff)

lemma check_mol_two_benzenes:
  "check_mol two_benzenes = Inl (DockingError ''Incorrect number of molecular fragments (2)'')"
  by code_simp

text \<open>
  C1: the claim says that \<open>check_mol\<close> raises when the molecule has an explicit hydrogen
  atom. The code tests the atomic number against 0, the number of a dummy atom, and a
  hydrogen atom has number 1: methane with its four hydrogen atoms explicit passes the
  check, and a molecule with a dummy atom and no hydrogen atom is rejected with the
  hydrogen message.
\<close>

theorem check_mol_misses_hydrogen:
  "list_ex (\<lambda>atom. atom = hydrogen) (atoms methane_with_hs)
   \<and> check_mol methane_with_hs = Inr ()
   \<and> \<not> list_ex (\<lambda>atom. atom = hydrogen) (atoms dummy_methyl)
   \<and> check_mol dummy_methyl
       = Inl (DockingError ''Cannot process molecule: hydrogen atoms couldn't be removed'')"
  by code_simp

theorem check_mol_misses_hydrogen_witness:
  "\<forall>msg. check_mol methane_with_hs \<noteq> Inl (DockingError msg)"
  using check_mol_misses_hydrogen by simp

section \<open>smiles_to_mol\<close>

text \<open>
  C4: with \<open>verbose\<close> false, the error channel is enabled again when the text parses;
  when it does not parse, \<open>DockingError\<close> is raised before the channel is enabled again,
  and the channel stays disabled after the call.
\<close>

theorem smiles_to_mol_log:
  "(MolFromSmiles smiles = Some m \<longrightarrow>
      smiles_to_mol MolFromSmiles smiles False lg = (Inr m, lg(''rdApp.error'' := True)))
   \<and> (MolFromSmiles smiles = None \<longrightarrow>
      smiles_to_mol MolFromSmiles smiles False lg
        = (Inl (DockingError ''Could not parse SMILES string''), lg(''rdApp.error'' := False)))"
  by (simp add: smiles_to_mol_def DisableLog_def EnableLog_def Let_def)

theorem smiles_to_mol_log_witness:
  "snd (smiles_to_mol (\<lambda>s. None :: mol option) ''C1CC'' False (\<lambda>c. True)) ''rdApp.error''
     = False"
  using smiles_to_mol_log [of "\<lambda>s. None :: mol option" "''C1CC''" _ "\<lambda>c. True"]
  by simp

section \<open>verify_docked_ligand\<close>

text \<open>
  C6: \<open>verify_docked_ligand\<close> raises \<open>DockingError\<close> exactly when the SMILES
  serialization of the ligand differs from that of the reference, it raises nothing else,
  and it is silent on an exact copy of the reference.
\<close>

theorem verify_docked_ligand_iff:
  "((\<exists>msg. verify_docked_ligand MolToSmiles ref ligand = Inl (DockingError msg))
      \<longleftrightarrow> MolToSmiles ligand \<noteq> MolToSmiles ref)
   \<and> (verify_docked_ligand MolToSmiles ref ligand = Inr ()
      \<longleftrightarrow> MolToSmiles ligand = MolToSmiles ref)
   \<and> verify_docked_ligand MolToSmiles ref ref = Inr ()"
  by (simp add: verify_docked_ligand_def Let_def)

theorem verify_docked_ligand_iff_witness:
  "(\<exists>msg. verify_docked_ligand (\<lambda>m::string. m) ''c1ccccc1'' ''CCO'' = Inl (DockingError msg))
   \<and> verify_docked_ligand (\<lambda>m::string. m) ''CCO'' ''CCO'' = Inr ()"
  using verify_docked_ligand_iff [of "\<lambda>m::string. m" "''c1ccccc1''" "''CCO''"]
        verify_docked_ligand_iff [of "\<lambda>m::string. m" "''CCO''" "''CCO''"]
  by simp

section \<open>Force-field refinement\<close>

lemma trace_run_uff_opt:
  "trace (snd (run_uff_opt tk a n s)) = trace s @ [UFFOptimize (length (heap s))]"
  by (simp add: run_uff_opt_def copy_mol_def in_place_def Let_def split: prod.splits sum.splits)

lemma trace_run_mmff94_opt:
  "\<exists>evs. trace (snd (run_mmff94_opt tk a n s)) = trace s @ evs \<and> \<not> list_ex is_uff evs"
  by (auto simp: run_mmff94_opt_def copy_mol_def in_place_def Let_def is_uff_def
           split: prod.splits sum.splits option.splits)





lemma uff_ran_append:
  "trace s' = trace s @ evs \<Longrightarrow> uff_ran s s' = list_ex is_uff evs"
  by (simp add: uff_ran_def new_events_def)

lemma uff_ran_run_uff_opt: "uff_ran s (snd (run_uff_opt tk a n s))"
  by (simp add: uff_ran_append [OF trace_run_uff_opt] is_uff_def)

lemma uff_ran_run_mmff94_opt: "\<not> uff_ran s (snd (run_mmff94_opt tk a n s))"
  using trace_run_mmff94_opt [of tk a n s] by (auto simp: uff_ran_append)

lemma uff_ran_after_fallback:
  "uff_ran s (snd (run_uff_opt tk a n (log_info t (snd (run_mmff94_opt tk a n s)))))"
proof -
  obtain evs where e: "trace (snd (run_mmff94_opt tk a n s)) = trace s @ evs"
    using trace_run_mmff94_opt [of tk a n s] by blast
  have "trace (snd (run_uff_opt tk a n (log_info t (snd (run_mmff94_opt tk a n s)))))
        = trace s @ (evs @ [LogInfo t, UFFOptimize (length (heap (snd (run_mmff94_opt tk a n s))))])"
    by (simp add: trace_run_uff_opt log_info_def e)
  then show ?thesis
    by (simp add: uff_ran_append is_uff_def)
qed

text \<open>The three branches of \<open>refine_mol_with_ff\<close>, with the handler written out.\<close>

lemma refine_cases:
  "refine_mol_with_ff tk a n s =
     (if MMFFHasAllMoleculeParams tk (heap s ! a) then
        (if \<exists>t. fst (run_mmff94_opt tk a n s) = Inl (KekulizeException t)
         then run_uff_opt tk a n
                (log_info (''Ligand optimization with MMFF94 failed: ''
                     @ exn_text (projl (fst (run_mmff94_opt tk a n s))) @ '', trying UFF'')
                   (snd (run_mmff94_opt tk a n s)))
         else run_mmff94_opt tk a n s)
      else if UFFHasAllMoleculeParams tk (heap s ! a) then run_uff_opt tk a n s
      else (Inl (DockingError ''Cannot optimize ligand: parameters not available''), s))"
  by (cases "run_mmff94_opt tk a n s")
     (auto simp: refine_mol_with_ff_def exn_text_def split: sum.splits exn.splits)

text \<open>
  C2: during \<open>refine_mol_with_ff\<close> the UFF optimizer runs exactly when the MMFF94
  parameters are available and \<open>run_mmff94_opt\<close> raises the kekulization exception, or
  the MMFF94 parameters are not available and the UFF parameters are; when neither
  method has its parameters, \<open>DockingError\<close> is raised.
\<close>

theorem refine_mol_with_ff_fallback:
  "(uff_ran s (snd (refine_mol_with_ff tk a n s)) \<longleftrightarrow>
      (MMFFHasAllMoleculeParams tk (heap s ! a)
         \<and> (\<exists>t. fst (run_mmff94_opt tk a n s) = Inl (KekulizeException t)))
      \<or> (\<not> MMFFHasAllMoleculeParams tk (heap s ! a)
         \<and> UFFHasAllMoleculeParams tk (heap s ! a)))
   \<and> (\<not> MMFFHasAllMoleculeParams tk (heap s ! a) \<and> \<not> UFFHasAllMoleculeParams tk (heap s ! a)
        \<longrightarrow> fst (refine_mol_with_ff tk a n s)
              = Inl (DockingError ''Cannot optimize ligand: parameters not available''))"
proof -
  have none: "\<not> uff_ran s s"
    by (simp add: uff_ran_def new_events_def)
  show ?thesis
    unfolding refine_cases
    using uff_ran_after_fallback [of s tk a n] uff_ran_run_uff_opt [of s tk a n]
          uff_ran_run_mmff94_opt [of s tk a n] none
    by (simp del: ex_simps)
qed

theorem refine_mol_with_ff_fallback_witness:
  "uff_ran \<lparr>heap = [7], trace = []\<rparr>
     (snd (refine_mol_with_ff kek_toolkit 0 1000 \<lparr>heap = [7], trace = []\<rparr>))
   \<and> fst (refine_mol_with_ff no_params_toolkit 0 1000 \<lparr>heap = [7], trace = []\<rparr>)
       = Inl (DockingError ''Cannot optimize ligand: parameters not available'')"
  using refine_mol_with_ff_fallback [of "\<lparr>heap = [7], trace = []\<rparr>" kek_toolkit 0 1000]
        refine_mol_with_ff_fallback [of "\<lparr>heap = [7], trace = []\<rparr>" no_params_toolkit 0 1000]
  by (simp add: kek_toolkit_def no_params_toolkit_def run_mmff94_opt_def copy_mol_def
        in_place_def)





end
